theory Spec2Isabelle
  imports Main "HOL-Library.Word"
begin

section \<open>JavaScript values\<close>

text \<open>
  A JavaScript string is a sequence of 16-bit code units. \<open>str\<close> embeds an ASCII literal.
\<close>

type_synonym code_unit = "16 word"
type_synonym js_string = "code_unit list"

definition str :: "string \<Rightarrow> js_string" where
  "str s = map of_char s"

text \<open>
  A Number inside a parsed body is given by the string that \<open>Number::toString\<close> writes
  for it (\<open>2010\<close>, \<open>0.5\<close>, \<open>1e+21\<close>, \<open>Infinity\<close>). The handlers ask two things of such
  a Number, its truthiness and its conversion to a string, and the string decides both:
  the falsy Numbers are \<open>0\<close>, \<open>-0\<close> and \<open>NaN\<close>, written \<open>0\<close>, \<open>0\<close> and \<open>NaN\<close>.

  The value of \<open>parseInt\<close> is \<open>NaN\<close>, or the Number for the integer \<open>n\<close> that the
  digits read denote. That Number is \<open>n\<close> itself, \<open>Finite n\<close>, when the magnitude of
  \<open>n\<close> is below \<open>2 ^ 53\<close>; beyond, it is the Number the engine rounds \<open>n\<close> to,
  \<open>Rounded n\<close>, which may be an infinity.
\<close>

datatype js_number = Finite int | Rounded int | NaN

definition Number_of_integer :: "int \<Rightarrow> js_number" where
  "Number_of_integer n = (if \<bar>n\<bar> < 2 ^ 53 then Finite n else Rounded n)"

datatype js_value =
    JUndefined
  | JNull
  | JBool bool
  | JNumber js_string
  | JString js_string
  | JArray "js_value list"
  | JObject "(js_string \<times> js_value) list"

datatype js_error = SyntaxError | TypeError | NotFound | PersistenceError

text \<open>ToBoolean, the test behind \<open>!x\<close>.\<close>

fun truthy :: "js_value \<Rightarrow> bool" where
  "truthy JUndefined = False"
| "truthy JNull = False"
| "truthy (JBool b) = b"
| "truthy (JNumber s) = (s \<noteq> str ''0'' \<and> s \<noteq> str ''NaN'')"
| "truthy (JString s) = (s \<noteq> [])"
| "truthy (JArray xs) = True"
| "truthy (JObject kvs) = True"

text \<open>
  Destructuring \<open>const { id, title, actors, year } = body\<close>: \<open>null\<close> and \<open>undefined\<close>
  cannot be destructured (TypeError); an object yields the value bound to the key, or
  \<open>undefined\<close>; every other value has none of these four properties. In an association
  list the first binding of a key is the one the object holds.
\<close>

definition RequireObjectCoercible :: "js_value \<Rightarrow> js_error + js_value" where
  "RequireObjectCoercible v = (if v = JUndefined \<or> v = JNull then Inl TypeError else Inr v)"

fun property :: "js_value \<Rightarrow> js_string \<Rightarrow> js_value" where
  "property (JObject kvs) k = (case map_of kvs k of None \<Rightarrow> JUndefined | Some v \<Rightarrow> v)"
| "property v k = JUndefined"

subsection \<open>String.prototype.split and String.prototype.trim\<close>

definition comma :: code_unit where
  "comma = 0x2C"

text \<open>WhiteSpace and LineTerminator code points, the ones \<open>trim\<close> and \<open>parseInt\<close> strip.\<close>

definition isWhiteSpace :: "code_unit \<Rightarrow> bool" where
  "isWhiteSpace c \<longleftrightarrow>
     c \<in> set [0x0009, 0x000A, 0x000B, 0x000C, 0x000D, 0x0020, 0x00A0, 0x1680,
               0x2028, 0x2029, 0x202F, 0x205F, 0x3000, 0xFEFF]
     \<or> (0x2000 \<le> c \<and> c \<le> 0x200A)"

definition trimStart :: "js_string \<Rightarrow> js_string" where
  "trimStart s = dropWhile isWhiteSpace s"

definition trimEnd :: "js_string \<Rightarrow> js_string" where
  "trimEnd s = rev (dropWhile isWhiteSpace (rev s))"

definition trim :: "js_string \<Rightarrow> js_string" where
  "trim s = trimEnd (trimStart s)"

text \<open>\<open>s.split(sep)\<close> for a one-unit separator: the empty string splits into \<open>[""]\<close>.\<close>

fun split :: "js_string \<Rightarrow> code_unit \<Rightarrow> js_string list" where
  "split [] sep = [[]]"
| "split (c # cs) sep =
     (if c = sep then [] # split cs sep
      else (case split cs sep of [] \<Rightarrow> [[c]] | w # ws \<Rightarrow> (c # w) # ws))"

subsection \<open>ToString and parseInt\<close>

text \<open>The decimal numeral of a natural number.\<close>

fun digits :: "nat \<Rightarrow> js_string" where
  "digits n =
     (if n < 10 then [of_nat (48 + n)] else digits (n div 10) @ [of_nat (48 + n mod 10)])"

declare digits.simps [simp del]

fun join :: "js_string \<Rightarrow> js_string list \<Rightarrow> js_string" where
  "join sep [] = []"
| "join sep [x] = x"
| "join sep (x # y # ys) = x @ sep @ join sep (y # ys)"

text \<open>
  ToString. An object is converted by its \<open>toString\<close>: the one of \<open>Object.prototype\<close>
  gives \<open>[object Object]\<close>; an object of a parsed body that has a key \<open>toString\<close> of its
  own holds a value there that cannot be called, \<open>valueOf\<close> gives no primitive either,
  and the conversion throws a TypeError. An array joins the conversions of its elements
  with commas, \<open>null\<close> and \<open>undefined\<close> counting as the empty string, and throws when
  one of them does.
\<close>

fun sequence :: "(js_error + 'a) list \<Rightarrow> js_error + 'a list" where
  "sequence [] = Inr []"
| "sequence (r # rs) =
     (case r of
        Inl err \<Rightarrow> Inl err
      | Inr x \<Rightarrow> (case sequence rs of Inl err \<Rightarrow> Inl err | Inr xs \<Rightarrow> Inr (x # xs)))"

fun ToString :: "js_value \<Rightarrow> js_error + js_string" where
  "ToString JUndefined = Inr (str ''undefined'')"
| "ToString JNull = Inr (str ''null'')"
| "ToString (JBool b) = Inr (if b then str ''true'' else str ''false'')"
| "ToString (JNumber s) = Inr s"
| "ToString (JString s) = Inr s"
| "ToString (JArray xs) =
     (case sequence (map (\<lambda>x. if x = JUndefined \<or> x = JNull then Inr [] else ToString x) xs) of
        Inl err \<Rightarrow> Inl err
      | Inr parts \<Rightarrow> Inr (join [comma] parts))"
| "ToString (JObject kvs) =
     (if map_of kvs (str ''toString'') \<noteq> None then Inl TypeError
      else Inr (str ''[object Object]''))"

definition isDigit :: "code_unit \<Rightarrow> bool" where
  "isDigit c \<longleftrightarrow> 0x30 \<le> c \<and> c \<le> 0x39"

definition digitValue :: "code_unit \<Rightarrow> nat" where
  "digitValue c = unat c - 48"

definition parseDigits :: "js_string \<Rightarrow> nat" where
  "parseDigits Z = foldl (\<lambda>n c. 10 * n + digitValue c) 0 Z"

text \<open>
  \<open>parseInt(v, 10)\<close>: convert to a string (which may throw), strip leading white space,
  read an optional sign, then the longest prefix of decimal digits; no digit gives \<open>NaN\<close>.
  What follows the digits is not looked at.
\<close>

definition parseInt_string :: "js_string \<Rightarrow> js_number" where
  "parseInt_string inputString =
     (let S = trimStart inputString;
          sign = (if S \<noteq> [] \<and> hd S = 0x2D then - 1 else 1);
          S' = (if S \<noteq> [] \<and> (hd S = 0x2B \<or> hd S = 0x2D) then tl S else S);
          Z = takeWhile isDigit S'
      in if Z = [] then NaN else Number_of_integer (sign * int (parseDigits Z)))"

definition parseInt :: "js_value \<Rightarrow> js_error + js_number" where
  "parseInt v =
     (case ToString v of Inl err \<Rightarrow> Inl err | Inr inputString \<Rightarrow> Inr (parseInt_string inputString))"

section \<open>The route handlers (src/app/api/movies/route.ts)\<close>

text \<open>The \<open>Movie\<close> type, as the Prisma client returns it and the page declares it.\<close>

record Movie =
  movie_id :: js_string
  title :: js_string
  actors :: "js_string list"
  year :: int

text \<open>The \<open>data\<close> argument of \<open>prisma.movie.create\<close> and \<open>prisma.movie.update\<close>.\<close>

record movie_data =
  data_title :: js_value
  data_actors :: js_value
  data_year :: js_number

text \<open>
  An awaited computation either throws or returns, and may change the store on the way.
\<close>

type_synonym ('a, 'st) action = "'st \<Rightarrow> (js_error + 'a) \<times> 'st"

definition return :: "'a \<Rightarrow> ('a, 'st) action" where
  "return a st = (Inr a, st)"

definition await :: "js_error + 'a \<Rightarrow> ('a, 'st) action" where
  "await r st = (r, st)"

definition bind :: "('a, 'st) action \<Rightarrow> ('a \<Rightarrow> ('b, 'st) action) \<Rightarrow> ('b, 'st) action" where
  "bind m f st = (case m st of (Inl err, st') \<Rightarrow> (Inl err, st') | (Inr a, st') \<Rightarrow> f a st')"

definition try_catch :: "('a, 'st) action \<Rightarrow> (js_error \<Rightarrow> ('a, 'st) action) \<Rightarrow> ('a, 'st) action" where
  "try_catch block handler st =
     (case block st of (Inl err, st') \<Rightarrow> handler err st' | (Inr a, st') \<Rightarrow> (Inr a, st'))"

text \<open>
  The Prisma client is not part of the handlers: it is a parameter, over a store state
  \<open>'st\<close> of its own. \<open>where: { id }\<close> passes the \<open>id\<close> of the body as it came.
\<close>

record 'st PrismaClient =
  movie_findMany :: "(Movie list, 'st) action"
  movie_create :: "movie_data \<Rightarrow> (Movie, 'st) action"
  movie_update :: "js_value \<Rightarrow> movie_data \<Rightarrow> (Movie, 'st) action"
  movie_delete :: "js_value \<Rightarrow> (Movie, 'st) action"

datatype response_body =
    MoviesJson "Movie list"
  | MovieJson Movie
  | ErrorJson js_string
  | MessageJson js_string

record response =
  status :: nat
  body :: response_body

definition NextResponse_json :: "response_body \<Rightarrow> nat \<Rightarrow> response" where
  "NextResponse_json b s = \<lparr>status = s, body = b\<rparr>"

text \<open>
  A request is what \<open>await req.json()\<close> gives: the parsed body, or a SyntaxError. The
  calls of \<open>console.log\<close> and \<open>console.error\<close> only write to the log and are left out.
\<close>

datatype request = Request (json: "js_error + js_value")

text \<open>
  \<open>typeof actors === 'string' ? actors.split(',').map((actor) => actor.trim()) : actors\<close>.
  The \<open>data\<close> object is built before the store is called: \<open>parseInt(year, 10)\<close> runs
  inside the \<open>try\<close>, and when it throws the store is not called.
\<close>

fun actors_data :: "js_value \<Rightarrow> js_value" where
  "actors_data (JString s) = JArray (map (\<lambda>actor. JString (trim actor)) (split s comma))"
| "actors_data v = v"

definition GET :: "'st PrismaClient \<Rightarrow> (response, 'st) action" where
  "GET prisma =
     try_catch
       (bind (movie_findMany prisma) (\<lambda>movies.
        return (NextResponse_json (MoviesJson movies) 200)))
       (\<lambda>err. return (NextResponse_json (ErrorJson (str ''Failed to fetch movies'')) 500))"

definition POST :: "'st PrismaClient \<Rightarrow> request \<Rightarrow> (response, 'st) action" where
  "POST prisma req =
     try_catch
       (bind (await (json req)) (\<lambda>body.
        bind (await (RequireObjectCoercible body)) (\<lambda>body.
        let title = property body (str ''title'');
            actors = property body (str ''actors'');
            year = property body (str ''year'')
        in if \<not> truthy title \<or> \<not> truthy actors \<or> \<not> truthy year
           then return (NextResponse_json (ErrorJson (str ''Missing required fields'')) 400)
           else bind (await (parseInt year)) (\<lambda>parsed.
                bind (movie_create prisma
                        \<lparr>data_title = title,
                         data_actors = actors_data actors,
                         data_year = parsed\<rparr>) (\<lambda>newMovie.
                return (NextResponse_json (MovieJson newMovie) 201))))))
       (\<lambda>err. return (NextResponse_json (ErrorJson (str ''Failed to add movie'')) 500))"

definition PUT :: "'st PrismaClient \<Rightarrow> request \<Rightarrow> (response, 'st) action" where
  "PUT prisma req =
     try_catch
       (bind (await (json req)) (\<lambda>body.
        bind (await (RequireObjectCoercible body)) (\<lambda>body.
        let id = property body (str ''id'');
            title = property body (str ''title'');
            actors = property body (str ''actors'');
            year = property body (str ''year'')
        in if \<not> truthy id \<or> \<not> truthy title \<or> \<not> truthy actors \<or> \<not> truthy year
           then return (NextResponse_json (ErrorJson (str ''Missing required fields'')) 400)
           else bind (await (parseInt year)) (\<lambda>parsed.
                bind (movie_update prisma id
                        \<lparr>data_title = title,
                         data_actors = actors_data actors,
                         data_year = parsed\<rparr>) (\<lambda>updatedMovie.
                return (NextResponse_json (MovieJson updatedMovie) 200))))))
       (\<lambda>err. return (NextResponse_json (ErrorJson (str ''Failed to update movie'')) 500))"

definition DELETE :: "'st PrismaClient \<Rightarrow> request \<Rightarrow> (response, 'st) action" where
  "DELETE prisma req =
     try_catch
       (bind (await (json req)) (\<lambda>body.
        bind (await (RequireObjectCoercible body)) (\<lambda>body.
        let id = property body (str ''id'')
        in if \<not> truthy id
           then return (NextResponse_json (ErrorJson (str ''Missing movie ID'')) 400)
           else bind (movie_delete prisma id) (\<lambda>deleted.
                return (NextResponse_json (MessageJson (str ''Movie deleted successfully'')) 200)))))
       (\<lambda>err. return (NextResponse_json (ErrorJson (str ''Failed to delete movie'')) 500))"

definition missing_required_fields :: response where
  "missing_required_fields = NextResponse_json (ErrorJson (str ''Missing required fields'')) 400"

section \<open>The record store\<close>

text \<open>
  Modelled from the spec: the record store behind \<open>prisma.movie\<close> (the Prisma schema and
  the generated client are not among the sources). It holds the movie records in creation
  order, assigns the identifier on creation, and is reachable or not. Following the data
  model, a record has a text title, a sequence of text actors and an integer year, an
  integer being a Number that holds it exactly (\<open>Finite\<close>, not \<open>Rounded\<close>): a write
  whose data has another shape is rejected (PersistenceError), as is every operation while
  the store is unreachable. \<open>update\<close> and \<open>delete\<close> on an identifier that no record has
  fail with NotFound. Identifiers are opaque: here the decimal numeral of a counter.
\<close>

record store =
  records :: "Movie list"
  next_id :: nat
  connected :: bool

definition object_id :: "nat \<Rightarrow> js_string" where
  "object_id n = digits n"

fun as_text :: "js_value \<Rightarrow> js_string option" where
  "as_text (JString s) = Some s"
| "as_text v = None"

fun as_text_list :: "js_value \<Rightarrow> js_string list option" where
  "as_text_list (JArray xs) = those (map as_text xs)"
| "as_text_list v = None"

fun as_integer :: "js_number \<Rightarrow> int option" where
  "as_integer (Finite n) = Some n"
| "as_integer (Rounded n) = None"
| "as_integer NaN = None"

definition record_of :: "js_string \<Rightarrow> movie_data \<Rightarrow> Movie option" where
  "record_of i d =
     (case (as_text (data_title d), as_text_list (data_actors d), as_integer (data_year d)) of
        (Some t, Some a, Some y) \<Rightarrow> Some \<lparr>movie_id = i, title = t, actors = a, year = y\<rparr>
      | _ \<Rightarrow> None)"

definition store_findMany :: "(Movie list, store) action" where
  "store_findMany st =
     (if connected st then (Inr (records st), st) else (Inl PersistenceError, st))"

definition store_create :: "movie_data \<Rightarrow> (Movie, store) action" where
  "store_create d st =
     (if \<not> connected st then (Inl PersistenceError, st)
      else case record_of (object_id (next_id st)) d of
             None \<Rightarrow> (Inl PersistenceError, st)
           | Some m \<Rightarrow>
               (Inr m, st\<lparr>records := records st @ [m], next_id := Suc (next_id st)\<rparr>))"

definition store_update :: "js_value \<Rightarrow> movie_data \<Rightarrow> (Movie, store) action" where
  "store_update idv d st =
     (if \<not> connected st then (Inl PersistenceError, st)
      else case as_text idv of
             None \<Rightarrow> (Inl PersistenceError, st)
           | Some i \<Rightarrow>
               (case record_of i d of
                  None \<Rightarrow> (Inl PersistenceError, st)
                | Some m \<Rightarrow>
                    if i \<notin> set (map movie_id (records st)) then (Inl NotFound, st)
                    else (Inr m,
                          st\<lparr>records := map (\<lambda>x. if movie_id x = i then m else x) (records st)\<rparr>)))"

definition store_delete :: "js_value \<Rightarrow> (Movie, store) action" where
  "store_delete idv st =
     (if \<not> connected st then (Inl PersistenceError, st)
      else case as_text idv of
             None \<Rightarrow> (Inl PersistenceError, st)
           | Some i \<Rightarrow>
               (case find (\<lambda>x. movie_id x = i) (records st) of
                  None \<Rightarrow> (Inl NotFound, st)
                | Some m \<Rightarrow>
                    (Inr m, st\<lparr>records := filter (\<lambda>x. movie_id x \<noteq> i) (records st)\<rparr>)))"

definition record_store :: "store PrismaClient" where
  "record_store =
     \<lparr>movie_findMany = store_findMany, movie_create = store_create,
      movie_update = store_update, movie_delete = store_delete\<rparr>"

text \<open>
  The states the store reaches from the empty one: identifiers are pairwise distinct and
  each was issued by the counter.
\<close>

definition store_inv :: "store \<Rightarrow> bool" where
  "store_inv st \<longleftrightarrow>
     distinct (map movie_id (records st)) \<and>
     list_all (\<lambda>m. movie_id m \<in> set (map object_id [0..<next_id st])) (records st)"

definition empty_store :: store where
  "empty_store = \<lparr>records = [], next_id = 0, connected = True\<rparr>"

section \<open>The page (src/app/page.tsx)\<close>

text \<open>
  The state of \<open>HomePage\<close>: the three \<open>useState\<close> cells, and the notices \<open>alert\<close> has
  shown. \<open>fetch\<close> is a parameter: it rejects (a network error), or resolves to a response
  with its \<open>ok\<close> flag and the outcome of \<open>response.json()\<close>, which the page reads as a
  \<open>Movie\<close>. The URL and the headers are the same in every call and left out. The list
  is changed by \<open>handleSubmit\<close> and \<open>handleDelete\<close>, the two functions given here.
\<close>

record movie_form =
  form_title :: js_string
  form_actors :: js_string
  form_year :: js_string

record page_state =
  movies :: "Movie list"
  newMovie :: movie_form
  editingMovie :: "Movie option"
  alerts :: "js_string list"




record fetch_response =
  ok :: bool
  response_json :: "js_error + Movie"





section \<open>The specification's own wording\<close>

text \<open>
  Normalisation as the specification words it: split on commas, trim white space from each
  segment, drop the empty segments.
\<close>

definition spec_normalize_actors :: "js_string \<Rightarrow> js_string list" where
  "spec_normalize_actors s = filter (\<lambda>a. a \<noteq> []) (map trim (split s comma))"

text \<open>
  The specification's invariant on a persisted record: a title, and a sequence of actors
  that is not empty (the year of a record is always there).
\<close>

definition spec_persisted_ok :: "Movie \<Rightarrow> bool" where
  "spec_persisted_ok m \<longleftrightarrow> title m \<noteq> [] \<and> actors m \<noteq> []"

text \<open>The content fields of a record are those of an input: title, actors and year.\<close>

definition same_content :: "js_string \<Rightarrow> js_string list \<Rightarrow> int \<Rightarrow> Movie \<Rightarrow> bool" where
  "same_content t a y m \<longleftrightarrow> title m = t \<and> actors m = a \<and> year m = y"

section \<open>Auxiliary definitions for the statements\<close>

text \<open>
  What \<open>POST\<close> and \<open>PUT\<close> do once the body has passed the required-field check: the one
  store call, inside the handler's \<open>try\<close>.
\<close>

definition create_call :: "'st PrismaClient \<Rightarrow> movie_data \<Rightarrow> (response, 'st) action" where
  "create_call prisma d =
     try_catch
       (bind (movie_create prisma d) (\<lambda>newMovie.
        return (NextResponse_json (MovieJson newMovie) 201)))
       (\<lambda>err. return (NextResponse_json (ErrorJson (str ''Failed to add movie'')) 500))"

definition update_call :: "'st PrismaClient \<Rightarrow> js_value \<Rightarrow> movie_data \<Rightarrow> (response, 'st) action" where
  "update_call prisma i d =
     try_catch
       (bind (movie_update prisma i d) (\<lambda>updatedMovie.
        return (NextResponse_json (MovieJson updatedMovie) 200)))
       (\<lambda>err. return (NextResponse_json (ErrorJson (str ''Failed to update movie'')) 500))"

text \<open>A store with one record, and request bodies, for the concrete instances.\<close>

definition heat :: Movie where
  "heat = \<lparr>movie_id = str ''0'', title = str ''Heat'', actors = [str ''Al'', str ''Bob''],
           year = 1995\<rparr>"

definition heat_store :: store where
  "heat_store = \<lparr>records = [heat], next_id = 1, connected = True\<rparr>"

definition movie_body :: "js_value \<Rightarrow> js_value \<Rightarrow> js_value \<Rightarrow> (js_string \<times> js_value) list" where
  "movie_body t a y = [(str ''title'', t), (str ''actors'', a), (str ''year'', y)]"

text \<open>
  The record \<open>m\<close> is what a body with the fields \<open>kvs\<close> makes the handlers write: the
  three fields are truthy, the title and the parsed year (an integer the store holds) are
  the record's, and the actors are the record's either as the trimmed segments of a string
  or as the array supplied.
\<close>

definition written ::
  "(js_string \<times> js_value) list \<Rightarrow> Movie \<Rightarrow> bool" where
  "written kvs m \<longleftrightarrow>
     truthy (property (JObject kvs) (str ''title'')) \<and>
     truthy (property (JObject kvs) (str ''actors'')) \<and>
     truthy (property (JObject kvs) (str ''year'')) \<and>
     property (JObject kvs) (str ''title'') = JString (title m) \<and> title m \<noteq> [] \<and>
     parseInt (property (JObject kvs) (str ''year'')) = Inr (Finite (year m)) \<and>
     \<bar>year m\<bar> < 2 ^ 53 \<and>
     (case property (JObject kvs) (str ''actors'') of
        JString s \<Rightarrow> actors m = map trim (split s comma) \<and> actors m \<noteq> []
      | v \<Rightarrow> v = JArray (map JString (actors m)))"



section \<open>How the handlers run\<close>

lemmas action_defs = try_catch_def bind_def await_def return_def RequireObjectCoercible_def

lemma object_id_small:
  "object_id 0 = str ''0''" "object_id (Suc 0) = str ''1''" "object_id 1 = str ''1''"
  by (simp_all add: object_id_def digits.simps str_def)

lemmas eval_defs =
  action_defs NextResponse_json_def missing_required_fields_def object_id_small str_def comma_def
  trim_def trimStart_def trimEnd_def isWhiteSpace_def parseInt_def parseInt_string_def Number_of_integer_def isDigit_def
  parseDigits_def
  digitValue_def record_store_def store_findMany_def store_create_def store_update_def
  store_delete_def record_of_def empty_store_def heat_store_def heat_def
  movie_body_def create_call_def update_call_def Let_def

lemmas handler_defs = GET_def POST_def PUT_def DELETE_def

text \<open>
  A body that is neither \<open>null\<close> nor \<open>undefined\<close> is destructured and checked. It is
  refused, or the year is parsed: when that throws the answer is 500 and the store is not
  called, otherwise the store is called with the data.
\<close>

lemma POST_body:
  assumes "json req = Inr b" and "b \<noteq> JNull" and "b \<noteq> JUndefined"
  shows "POST prisma req st =
     (if \<not> truthy (property b (str ''title''))
         \<or> \<not> truthy (property b (str ''actors''))
         \<or> \<not> truthy (property b (str ''year''))
      then (Inr missing_required_fields, st)
      else case parseInt (property b (str ''year'')) of
             Inl err \<Rightarrow>
               (Inr (NextResponse_json (ErrorJson (str ''Failed to add movie'')) 500), st)
           | Inr parsed \<Rightarrow>
               create_call prisma
                 \<lparr>data_title = property b (str ''title''),
                  data_actors = actors_data (property b (str ''actors'')),
                  data_year = parsed\<rparr> st)"
  using assms
  by (simp add: POST_def create_call_def action_defs missing_required_fields_def Let_def
      split: sum.splits)

lemma PUT_body:
  assumes "json req = Inr b" and "b \<noteq> JNull" and "b \<noteq> JUndefined"
  shows "PUT prisma req st =
     (if \<not> truthy (property b (str ''id''))
         \<or> \<not> truthy (property b (str ''title''))
         \<or> \<not> truthy (property b (str ''actors''))
         \<or> \<not> truthy (property b (str ''year''))
      then (Inr missing_required_fields, st)
      else case parseInt (property b (str ''year'')) of
             Inl err \<Rightarrow>
               (Inr (NextResponse_json (ErrorJson (str ''Failed to update movie'')) 500), st)
           | Inr parsed \<Rightarrow>
               update_call prisma (property b (str ''id''))
                 \<lparr>data_title = property b (str ''title''),
                  data_actors = actors_data (property b (str ''actors'')),
                  data_year = parsed\<rparr> st)"
  using assms
  by (simp add: PUT_def update_call_def action_defs missing_required_fields_def Let_def
      split: sum.splits)

lemma POST_object:
  assumes "json req = Inr (JObject kvs)"
  shows "POST prisma req st =
     (if \<not> truthy (property (JObject kvs) (str ''title''))
         \<or> \<not> truthy (property (JObject kvs) (str ''actors''))
         \<or> \<not> truthy (property (JObject kvs) (str ''year''))
      then (Inr missing_required_fields, st)
      else case parseInt (property (JObject kvs) (str ''year'')) of
             Inl err \<Rightarrow>
               (Inr (NextResponse_json (ErrorJson (str ''Failed to add movie'')) 500), st)
           | Inr parsed \<Rightarrow>
               create_call prisma
                 \<lparr>data_title = property (JObject kvs) (str ''title''),
                  data_actors = actors_data (property (JObject kvs) (str ''actors'')),
                  data_year = parsed\<rparr> st)"
  using assms by (rule POST_body) simp_all

lemma PUT_object:
  assumes "json req = Inr (JObject kvs)"
  shows "PUT prisma req st =
     (if \<not> truthy (property (JObject kvs) (str ''id''))
         \<or> \<not> truthy (property (JObject kvs) (str ''title''))
         \<or> \<not> truthy (property (JObject kvs) (str ''actors''))
         \<or> \<not> truthy (property (JObject kvs) (str ''year''))
      then (Inr missing_required_fields, st)
      else case parseInt (property (JObject kvs) (str ''year'')) of
             Inl err \<Rightarrow>
               (Inr (NextResponse_json (ErrorJson (str ''Failed to update movie'')) 500), st)
           | Inr parsed \<Rightarrow>
               update_call prisma (property (JObject kvs) (str ''id''))
                 \<lparr>data_title = property (JObject kvs) (str ''title''),
                  data_actors = actors_data (property (JObject kvs) (str ''actors'')),
                  data_year = parsed\<rparr> st)"
  using assms by (rule PUT_body) simp_all

text \<open>
  A body that is \<open>null\<close>, or a request whose body is not JSON, makes the handler throw
  inside its \<open>try\<close>: the answer is 500 and the store is not touched.
\<close>

lemma null_or_unparsable_is_500:
  assumes "json req = Inl err \<or> json req = Inr JNull"
  shows "POST prisma req st
           = (Inr (NextResponse_json (ErrorJson (str ''Failed to add movie'')) 500), st)"
    and "PUT prisma req st
           = (Inr (NextResponse_json (ErrorJson (str ''Failed to update movie'')) 500), st)"
    and "DELETE prisma req st
           = (Inr (NextResponse_json (ErrorJson (str ''Failed to delete movie'')) 500), st)"
  using assms by (auto simp add: handler_defs action_defs)

lemma create_call_status:
  "\<exists>r. fst (create_call prisma d st) = Inr r \<and> (status r = 201 \<or> status r = 500)"
  by (simp add: create_call_def action_defs NextResponse_json_def split: sum.splits prod.splits)

lemma update_call_status:
  "\<exists>r. fst (update_call prisma i d st) = Inr r \<and> (status r = 200 \<or> status r = 500)"
  by (simp add: update_call_def action_defs NextResponse_json_def split: sum.splits prod.splits)

section \<open>The handlers never throw\<close>

text \<open>
  C10. Each of the four handlers returns a response, whatever the request and whatever the
  store does (return or throw): the exception of an unparsable body, of a body that cannot
  be destructured, or of the store call is caught, no exception leaves the handler, and the
  status of the response is one of 200, 201, 400 and 500.
\<close>

theorem handlers_total:
  "(\<exists>r. fst (GET prisma st) = Inr r \<and> status r \<in> {200, 201, 400, 500}) \<and>
   (\<exists>r. fst (POST prisma req st) = Inr r \<and> status r \<in> {200, 201, 400, 500}) \<and>
   (\<exists>r. fst (PUT prisma req st) = Inr r \<and> status r \<in> {200, 201, 400, 500}) \<and>
   (\<exists>r. fst (DELETE prisma req st) = Inr r \<and> status r \<in> {200, 201, 400, 500})"
  by (simp add: GET_def POST_def PUT_def DELETE_def action_defs NextResponse_json_def Let_def
      split: sum.splits prod.splits)

theorem handlers_total_witness:
  "(\<exists>r. fst (GET record_store (heat_store\<lparr>connected := False\<rparr>)) = Inr r
        \<and> status r \<in> {200, 201, 400, 500}) \<and>
   (\<exists>r. fst (POST record_store (Request (Inl SyntaxError)) (heat_store\<lparr>connected := False\<rparr>))
          = Inr r
        \<and> status r \<in> {200, 201, 400, 500}) \<and>
   (\<exists>r. fst (PUT record_store (Request (Inl SyntaxError)) (heat_store\<lparr>connected := False\<rparr>))
          = Inr r
        \<and> status r \<in> {200, 201, 400, 500}) \<and>
   (\<exists>r. fst (DELETE record_store (Request (Inl SyntaxError)) (heat_store\<lparr>connected := False\<rparr>))
          = Inr r
        \<and> status r \<in> {200, 201, 400, 500})"
  using handlers_total
    [of record_store "heat_store\<lparr>connected := False\<rparr>" "Request (Inl SyntaxError)"] .

section \<open>The required-field check\<close>

text \<open>
  C2, as stated, fails: a request can lack every required field and be answered 500. The
  body \<open>null\<close> has no field, destructuring it throws, and the answer is the 500 of the
  \<open>catch\<close>; so is the answer to a request whose body is not JSON, where \<open>req.json()\<close>
  throws. The store is unchanged.
\<close>

theorem missing_field_counterexample:
  "property JNull (str ''title'') = JUndefined \<and>
   POST record_store (Request (Inr JNull)) heat_store
     = (Inr \<lparr>status = 500, body = ErrorJson (str ''Failed to add movie'')\<rparr>, heat_store) \<and>
   PUT record_store (Request (Inl SyntaxError)) heat_store
     = (Inr \<lparr>status = 500, body = ErrorJson (str ''Failed to update movie'')\<rparr>, heat_store)"
  by (simp add: handler_defs eval_defs)

text \<open>
  C2, amended. A create request whose body is a JSON value other than \<open>null\<close> and lacks
  \<open>title\<close>, \<open>actors\<close> or \<open>year\<close>, and an update request whose body is such a value and
  lacks \<open>id\<close> or one of these, is answered 400, "Missing required fields". A request
  whose body is \<open>null\<close>, or is not JSON, is answered 500. In all these cases the store
  state comes back as it went in, for every store client: no store operation is run. A
  field is absent when reading it gives \<open>undefined\<close>.
\<close>

theorem missing_field_is_400:
  "(\<forall>b. json req = Inr b \<and> b \<noteq> JNull \<and> b \<noteq> JUndefined
        \<and> (property b (str ''title'') = JUndefined \<or> property b (str ''actors'') = JUndefined
           \<or> property b (str ''year'') = JUndefined)
      \<longrightarrow> POST prisma req st = (Inr missing_required_fields, st)) \<and>
   (\<forall>b. json req = Inr b \<and> b \<noteq> JNull \<and> b \<noteq> JUndefined
        \<and> (property b (str ''id'') = JUndefined \<or> property b (str ''title'') = JUndefined
           \<or> property b (str ''actors'') = JUndefined \<or> property b (str ''year'') = JUndefined)
      \<longrightarrow> PUT prisma req st = (Inr missing_required_fields, st)) \<and>
   ((\<exists>err. json req = Inl err) \<or> json req = Inr JNull
      \<longrightarrow> POST prisma req st
            = (Inr (NextResponse_json (ErrorJson (str ''Failed to add movie'')) 500), st)
          \<and> PUT prisma req st
            = (Inr (NextResponse_json (ErrorJson (str ''Failed to update movie'')) 500), st)) \<and>
   status missing_required_fields = 400"
proof -
  have post: "POST prisma req st = (Inr missing_required_fields, st)"
    if "json req = Inr b" "b \<noteq> JNull" "b \<noteq> JUndefined"
      "property b (str ''title'') = JUndefined \<or> property b (str ''actors'') = JUndefined
         \<or> property b (str ''year'') = JUndefined" for b
    using that(4) by (auto simp add: POST_body [OF that(1-3)] simp del: property.simps)
  have put: "PUT prisma req st = (Inr missing_required_fields, st)"
    if "json req = Inr b" "b \<noteq> JNull" "b \<noteq> JUndefined"
      "property b (str ''id'') = JUndefined \<or> property b (str ''title'') = JUndefined
         \<or> property b (str ''actors'') = JUndefined \<or> property b (str ''year'') = JUndefined"
    for b
    using that(4) by (auto simp add: PUT_body [OF that(1-3)] simp del: property.simps)
  have thrown: "POST prisma req st
        = (Inr (NextResponse_json (ErrorJson (str ''Failed to add movie'')) 500), st)
      \<and> PUT prisma req st
        = (Inr (NextResponse_json (ErrorJson (str ''Failed to update movie'')) 500), st)"
    if "(\<exists>err. json req = Inl err) \<or> json req = Inr JNull"
    using that null_or_unparsable_is_500 [of req _ prisma st] by blast
  have "status missing_required_fields = 400"
    by (simp add: missing_required_fields_def NextResponse_json_def)
  with post put thrown show ?thesis by blast
qed

theorem missing_field_is_400_witness:
  "property (JObject [(str ''title'', JString (str ''Ronin'')),
                      (str ''actors'', JString (str ''Al, Bob''))]) (str ''year'') = JUndefined \<and>
   POST record_store
     (Request (Inr (JObject [(str ''title'', JString (str ''Ronin'')),
                             (str ''actors'', JString (str ''Al, Bob''))])))
     heat_store
     = (Inr \<lparr>status = 400, body = ErrorJson (str ''Missing required fields'')\<rparr>, heat_store) \<and>
   PUT record_store
     (Request (Inr (JObject [(str ''title'', JString (str ''Ronin'')),
                             (str ''actors'', JString (str ''Al, Bob''))])))
     heat_store
     = (Inr \<lparr>status = 400, body = ErrorJson (str ''Missing required fields'')\<rparr>, heat_store) \<and>
   POST record_store (Request (Inr JNull)) heat_store
     = (Inr \<lparr>status = 500, body = ErrorJson (str ''Failed to add movie'')\<rparr>, heat_store)"
  using
    missing_field_is_400
      [of "Request (Inr (JObject [(str ''title'', JString (str ''Ronin'')),
                                  (str ''actors'', JString (str ''Al, Bob''))]))"
          record_store heat_store]
    missing_field_is_400 [of "Request (Inr JNull)" record_store heat_store]
  by (simp add: str_def missing_required_fields_def NextResponse_json_def)

text \<open>
  C9. The check is JavaScript truthiness. A body whose \<open>year\<close> is the number 0, or whose
  \<open>title\<close> is the empty string, gets from \<open>POST\<close> and from \<open>PUT\<close> the very response of
  a missing field, 400 "Missing required fields", and the store is not touched. The empty
  array is truthy: with \<open>actors\<close> equal to \<open>[]\<close> (and the other fields truthy) the
  answer is not that 400; the handler goes on to parse the year and, unless that throws,
  to the store call, with the empty array as the actors to write.
\<close>

theorem truthiness_check:
  assumes "json req = Inr (JObject kvs)"
  shows "((map_of kvs (str ''year'') = Some (JNumber (str ''0''))
           \<or> map_of kvs (str ''title'') = Some (JString []))
          \<longrightarrow> POST prisma req st = (Inr missing_required_fields, st)
              \<and> PUT prisma req st = (Inr missing_required_fields, st)) \<and>
         (map_of kvs (str ''actors'') = Some (JArray [])
            \<and> truthy (property (JObject kvs) (str ''title''))
            \<and> truthy (property (JObject kvs) (str ''year''))
          \<longrightarrow> fst (POST prisma req st) \<noteq> Inr missing_required_fields
              \<and> (\<forall>parsed. parseInt (property (JObject kvs) (str ''year'')) = Inr parsed
                   \<longrightarrow> POST prisma req st =
                         create_call prisma
                           \<lparr>data_title = property (JObject kvs) (str ''title''),
                            data_actors = JArray [],
                            data_year = parsed\<rparr> st)
              \<and> (truthy (property (JObject kvs) (str ''id''))
                 \<longrightarrow> fst (PUT prisma req st) \<noteq> Inr missing_required_fields
                     \<and> (\<forall>parsed. parseInt (property (JObject kvs) (str ''year'')) = Inr parsed
                          \<longrightarrow> PUT prisma req st =
                                update_call prisma (property (JObject kvs) (str ''id''))
                                  \<lparr>data_title = property (JObject kvs) (str ''title''),
                                   data_actors = JArray [],
                                   data_year = parsed\<rparr> st)))"
proof -
  have not_400: "fst (create_call prisma d st) \<noteq> Inr missing_required_fields"
    "fst (update_call prisma i d st) \<noteq> Inr missing_required_fields" for d i
    using create_call_status [of prisma d st] update_call_status [of prisma i d st]
    by (auto simp add: missing_required_fields_def NextResponse_json_def)
  have not_400': "NextResponse_json (ErrorJson m) 500 \<noteq> missing_required_fields" for m
    by (simp add: missing_required_fields_def NextResponse_json_def)
  show ?thesis
    using not_400 not_400'
    by (auto simp add: POST_object [OF assms] PUT_object [OF assms] split: sum.splits)
qed

theorem truthiness_check_witness:
  "POST record_store
     (Request (Inr (JObject
        (movie_body (JString (str ''Ronin'')) (JString (str ''Al'')) (JNumber (str ''0''))))))
     heat_store
     = (Inr \<lparr>status = 400, body = ErrorJson (str ''Missing required fields'')\<rparr>, heat_store) \<and>
   PUT record_store
     (Request (Inr (JObject
        ((str ''id'', JString (str ''0''))
         # movie_body (JString (str ''Ronin'')) (JString (str ''Al'')) (JNumber (str ''0''))))))
     heat_store
     = (Inr \<lparr>status = 400, body = ErrorJson (str ''Missing required fields'')\<rparr>, heat_store) \<and>
   PUT record_store
     (Request (Inr (JObject
        ((str ''id'', JString (str ''0''))
         # movie_body (JString []) (JString (str ''Al'')) (JNumber (str ''1998''))))))
     heat_store
     = (Inr \<lparr>status = 400, body = ErrorJson (str ''Missing required fields'')\<rparr>, heat_store) \<and>
   POST record_store
     (Request (Inr (JObject
        (movie_body (JString (str ''Ronin'')) (JArray []) (JNumber (str ''1998''))))))
     heat_store
     = (Inr \<lparr>status = 201,
            body = MovieJson
              \<lparr>movie_id = str ''1'', title = str ''Ronin'', actors = [], year = 1998\<rparr>\<rparr>,
        \<lparr>records =
           [heat, \<lparr>movie_id = str ''1'', title = str ''Ronin'', actors = [], year = 1998\<rparr>],
         next_id = 2, connected = True\<rparr>) \<and>
   PUT record_store
     (Request (Inr (JObject
        ((str ''id'', JString (str ''0''))
         # movie_body (JString (str ''Ronin'')) (JArray []) (JNumber (str ''1998''))))))
     heat_store
     = (Inr \<lparr>status = 200,
            body = MovieJson
              \<lparr>movie_id = str ''0'', title = str ''Ronin'', actors = [], year = 1998\<rparr>\<rparr>,
        \<lparr>records = [\<lparr>movie_id = str ''0'', title = str ''Ronin'', actors = [], year = 1998\<rparr>],
         next_id = 1, connected = True\<rparr>)"
  using
    truthiness_check
      [of "Request (Inr (JObject
             (movie_body (JString (str ''Ronin'')) (JString (str ''Al'')) (JNumber (str ''0'')))))"
          "movie_body (JString (str ''Ronin'')) (JString (str ''Al'')) (JNumber (str ''0''))"
          record_store heat_store]
    truthiness_check
      [of "Request (Inr (JObject
             ((str ''id'', JString (str ''0''))
              # movie_body (JString (str ''Ronin'')) (JString (str ''Al'')) (JNumber (str ''0'')))))"
          "(str ''id'', JString (str ''0''))
              # movie_body (JString (str ''Ronin'')) (JString (str ''Al'')) (JNumber (str ''0''))"
          record_store heat_store]
    truthiness_check
      [of "Request (Inr (JObject
             ((str ''id'', JString (str ''0''))
              # movie_body (JString []) (JString (str ''Al'')) (JNumber (str ''1998'')))))"
          "(str ''id'', JString (str ''0''))
              # movie_body (JString []) (JString (str ''Al'')) (JNumber (str ''1998''))"
          record_store heat_store]
    truthiness_check
      [of "Request (Inr (JObject
             (movie_body (JString (str ''Ronin'')) (JArray []) (JNumber (str ''1998'')))))"
          "movie_body (JString (str ''Ronin'')) (JArray []) (JNumber (str ''1998''))"
          record_store heat_store]
    truthiness_check
      [of "Request (Inr (JObject
             ((str ''id'', JString (str ''0''))
              # movie_body (JString (str ''Ronin'')) (JArray []) (JNumber (str ''1998'')))))"
          "(str ''id'', JString (str ''0''))
              # movie_body (JString (str ''Ronin'')) (JArray []) (JNumber (str ''1998''))"
          record_store heat_store]
  by (simp add: eval_defs)

section \<open>Normalising the actors\<close>

text \<open>
  What \<open>split\<close> and \<open>trim\<close> compute: the segments joined by the separator give the
  string back, no segment holds the separator, there is one segment more than separators;
  \<open>trim\<close> removes white space at both ends and nothing else.
\<close>

lemma split_not_Nil: "split s sep \<noteq> []"
  by (induction s) (auto split: list.splits)

lemma split_no_separator: "w \<in> set (split s sep) \<Longrightarrow> sep \<notin> set w"
  by (induction s arbitrary: w) (auto split: list.splits if_splits)

lemma join_split: "join [sep] (split s sep) = s"
proof (induction s)
  case Nil
  show ?case by simp
next
  case (Cons c cs)
  show ?case
  proof (cases "c = sep")
    case True
    with Cons split_not_Nil [of cs sep] show ?thesis
      by (cases "split cs sep") auto
  next
    case False
    with Cons split_not_Nil [of cs sep] show ?thesis
      by (cases "split cs sep"; cases "tl (split cs sep)") auto
  qed
qed

lemma length_split: "length (split s sep) = Suc (count_list s sep)"
  by (induction s) (auto split: list.splits simp: split_not_Nil)

lemma trim_decompose:
  "\<exists>a b. w = a @ trim w @ b \<and> list_all isWhiteSpace a \<and> list_all isWhiteSpace b"
proof -
  let ?a = "takeWhile isWhiteSpace w"
  let ?m = "dropWhile isWhiteSpace w"
  let ?b = "rev (takeWhile isWhiteSpace (rev ?m))"
  have "?m = trim w @ ?b"
    unfolding trim_def trimEnd_def trimStart_def
    by (metis rev_append rev_rev_ident takeWhile_dropWhile_id)
  then have "w = ?a @ trim w @ ?b"
    by (metis takeWhile_dropWhile_id)
  moreover have "list_all isWhiteSpace ?a"
    by (simp add: list_all_iff) (meson set_takeWhileD)
  moreover have "list_all isWhiteSpace ?b"
    by (simp add: list_all_iff) (meson set_takeWhileD)
  ultimately show ?thesis by blast
qed

lemma trim_ends:
  "trim w \<noteq> [] \<Longrightarrow> \<not> isWhiteSpace (hd (trim w)) \<and> \<not> isWhiteSpace (last (trim w))"
proof -
  assume ne: "trim w \<noteq> []"
  let ?m = "dropWhile isWhiteSpace w"
  have r: "rev (trim w) = dropWhile isWhiteSpace (rev ?m)"
    by (simp add: trim_def trimEnd_def trimStart_def)
  from ne have "dropWhile isWhiteSpace (rev ?m) \<noteq> []"
    using r by (metis rev_is_Nil_conv)
  then have "\<not> isWhiteSpace (hd (dropWhile isWhiteSpace (rev ?m)))"
    by (rule hd_dropWhile)
  then have l: "\<not> isWhiteSpace (last (trim w))"
    using r ne by (metis hd_rev)
  have "?m \<noteq> []"
  proof
    assume e: "?m = []"
    have "trim w = rev (dropWhile isWhiteSpace (rev ?m))"
      by (simp add: trim_def trimEnd_def trimStart_def)
    also have "\<dots> = []" unfolding e by simp
    finally show False using ne by simp
  qed
  then have h: "\<not> isWhiteSpace (hd ?m)" by (rule hd_dropWhile)
  obtain b where "?m = trim w @ b"
    unfolding trim_def trimEnd_def trimStart_def
    by (metis rev_append rev_rev_ident takeWhile_dropWhile_id)
  then have "hd ?m = hd (trim w)" using ne by (metis hd_append2)
  with h l show ?thesis by simp
qed

text \<open>
  C1, as stated, fails: empty segments are not dropped. With \<open>actors\<close> equal to
  \<open>"A,,B"\<close> the record written has the three actors \<open>"A"\<close>, \<open>""\<close>, \<open>"B"\<close>,
  where the specification's normalisation gives \<open>"A"\<close>, \<open>"B"\<close>.
\<close>

theorem actors_string_counterexample:
  "records (snd (POST record_store
      (Request (Inr (JObject
         (movie_body (JString (str ''Ronin'')) (JString (str ''A,,B'')) (JNumber (str ''1998''))))))
      heat_store))
   = [heat, \<lparr>movie_id = str ''1'', title = str ''Ronin'',
             actors = [str ''A'', [], str ''B''], year = 1998\<rparr>] \<and>
   spec_normalize_actors (str ''A,,B'') = [str ''A'', str ''B''] \<and>
   [str ''A'', [], str ''B''] \<noteq> spec_normalize_actors (str ''A,,B'')"
  by (simp add: handler_defs eval_defs spec_normalize_actors_def)

text \<open>
  C1, amended. When \<open>actors\<close> is a (non-empty) string and the other fields pass the
  check, the actors that \<open>POST\<close> hands to \<open>create\<close>, and \<open>PUT\<close> to \<open>update\<close>, are the
  segments of the string between its commas, each trimmed, in order, the empty ones
  included. This holds for every store client and every year that \<open>parseInt\<close> converts;
  when \<open>parseInt\<close> throws, the answer is 500 and the store is not called, so that nothing
  is written. In the instance below, \<open>"A, B ,C"\<close> is written as \<open>"A"\<close>, \<open>"B"\<close>, \<open>"C"\<close> by
  both handlers.
\<close>

theorem actors_string_split_trim:
  assumes "json req = Inr (JObject kvs)"
    and "map_of kvs (str ''actors'') = Some (JString s)"
    and "s \<noteq> []"
    and "truthy (property (JObject kvs) (str ''title''))"
    and "truthy (property (JObject kvs) (str ''year''))"
  shows "(\<forall>parsed. parseInt (property (JObject kvs) (str ''year'')) = Inr parsed
            \<longrightarrow> POST prisma req st =
                  create_call prisma
                    \<lparr>data_title = property (JObject kvs) (str ''title''),
                     data_actors = JArray (map JString (map trim (split s comma))),
                     data_year = parsed\<rparr> st
                \<and> (truthy (property (JObject kvs) (str ''id''))
                   \<longrightarrow> PUT prisma req st =
                         update_call prisma (property (JObject kvs) (str ''id''))
                           \<lparr>data_title = property (JObject kvs) (str ''title''),
                            data_actors = JArray (map JString (map trim (split s comma))),
                            data_year = parsed\<rparr> st)) \<and>
         (\<forall>err. parseInt (property (JObject kvs) (str ''year'')) = Inl err
            \<longrightarrow> POST prisma req st
                  = (Inr (NextResponse_json (ErrorJson (str ''Failed to add movie'')) 500), st)
                \<and> (truthy (property (JObject kvs) (str ''id''))
                   \<longrightarrow> PUT prisma req st
                         = (Inr (NextResponse_json (ErrorJson (str ''Failed to update movie'')) 500),
                            st)))"
  using assms(2-) by (simp add: POST_object [OF assms(1)] PUT_object [OF assms(1)] comp_def)

theorem actors_string_split_trim_witness:
  "POST record_store
     (Request (Inr (JObject
        ((str ''id'', JString (str ''0''))
         # movie_body (JString (str ''Ronin'')) (JString (str ''A, B ,C'')) (JNumber (str ''1998''))))))
     heat_store
   = (Inr \<lparr>status = 201,
          body = MovieJson \<lparr>movie_id = str ''1'', title = str ''Ronin'',
                            actors = [str ''A'', str ''B'', str ''C''], year = 1998\<rparr>\<rparr>,
      \<lparr>records = [heat, \<lparr>movie_id = str ''1'', title = str ''Ronin'',
                          actors = [str ''A'', str ''B'', str ''C''], year = 1998\<rparr>],
       next_id = 2, connected = True\<rparr>) \<and>
   PUT record_store
     (Request (Inr (JObject
        ((str ''id'', JString (str ''0''))
         # movie_body (JString (str ''Ronin'')) (JString (str ''A, B ,C'')) (JNumber (str ''1998''))))))
     heat_store
   = (Inr \<lparr>status = 200,
          body = MovieJson \<lparr>movie_id = str ''0'', title = str ''Ronin'',
                            actors = [str ''A'', str ''B'', str ''C''], year = 1998\<rparr>\<rparr>,
      \<lparr>records = [\<lparr>movie_id = str ''0'', title = str ''Ronin'',
                    actors = [str ''A'', str ''B'', str ''C''], year = 1998\<rparr>],
       next_id = 1, connected = True\<rparr>)"
  using actors_string_split_trim
    [of "Request (Inr (JObject
           ((str ''id'', JString (str ''0''))
            # movie_body (JString (str ''Ronin'')) (JString (str ''A, B ,C'')) (JNumber (str ''1998'')))))"
        "(str ''id'', JString (str ''0''))
            # movie_body (JString (str ''Ronin'')) (JString (str ''A, B ,C'')) (JNumber (str ''1998''))"
        "str ''A, B ,C''" record_store heat_store]
  by (simp add: eval_defs)

section \<open>Decimal numerals\<close>

text \<open>
  The decimal numeral of a natural number is read back by \<open>parseInt\<close>, and two numbers
  with the same numeral are equal.
\<close>

lemma digit_cases: "d < (10::nat) \<Longrightarrow> d \<in> {0, 1, 2, 3, 4, 5, 6, 7, 8, 9}"
  by auto

lemma digit_unit:
  assumes "d < 10"
  shows "isDigit (48 + of_nat d)" and "digitValue (48 + of_nat d) = d"
    and "\<not> isWhiteSpace (48 + of_nat d)"
    and "(48 + of_nat d :: code_unit) \<noteq> 0x2D" and "(48 + of_nat d :: code_unit) \<noteq> 0x2B"
  using digit_cases [OF assms]
  by (auto simp add: isDigit_def digitValue_def isWhiteSpace_def)

lemma digits_not_Nil: "digits n \<noteq> []"
  by (subst digits.simps) simp

lemma digits_all_digit: "list_all isDigit (digits n)"
proof (induction n rule: digits.induct)
  case (1 n)
  show ?case
    by (subst digits.simps) (use 1 in \<open>auto simp add: digit_unit(1)\<close>)
qed

lemma parseDigits_append: "parseDigits (Z @ [c]) = 10 * parseDigits Z + digitValue c"
  by (simp add: parseDigits_def)

lemma parseDigits_digits: "parseDigits (digits n) = n"
proof (induction n rule: digits.induct)
  case (1 n)
  show ?case
  proof (cases "n < 10")
    case True
    then show ?thesis
      by (subst digits.simps) (simp add: parseDigits_def digit_unit(2))
  next
    case False
    with 1 show ?thesis
      by (subst digits.simps) (simp add: parseDigits_append digit_unit(2))
  qed
qed

lemma hd_digits: "\<exists>d<10. hd (digits n) = 48 + of_nat d"
proof (induction n rule: digits.induct)
  case (1 n)
  show ?case
  proof (cases "n < 10")
    case True
    then show ?thesis by (subst digits.simps) auto
  next
    case False
    with 1 digits_not_Nil [of "n div 10"] show ?thesis
      by (subst digits.simps) simp
  qed
qed

text \<open>
  Of a string that starts with a numeral, \<open>parseInt\<close> reads the numeral and nothing of
  what follows it.
\<close>

lemma parseInt_string_prefix:
  assumes "r = [] \<or> \<not> isDigit (hd r)"
  shows "parseInt_string (digits n @ r) = Number_of_integer (int n)"
proof -
  obtain d where d: "d < 10" "hd (digits n) = 48 + of_nat d"
    using hd_digits by blast
  obtain c cs where c: "digits n = c # cs"
    using digits_not_Nil [of n] by (cases "digits n") auto
  with d have c': "c = 48 + of_nat d" by simp
  have ws: "trimStart (digits n @ r) = digits n @ r"
    using digit_unit(3) [OF d(1)] by (simp add: trimStart_def c c')
  have "takeWhile isDigit r = []"
    using assms by (simp add: takeWhile_eq_Nil_iff)
  moreover have "\<forall>x \<in> set (digits n). isDigit x"
    using digits_all_digit [of n] by (simp add: list_all_iff)
  ultimately have tw: "takeWhile isDigit (digits n @ r) = digits n"
    by simp
  have hd: "hd (digits n @ r) = 48 + of_nat d"
    using d(2) digits_not_Nil [of n] by simp
  show ?thesis
    using digit_unit(4,5) [OF d(1)] digits_not_Nil [of n]
    by (simp add: parseInt_string_def ws Let_def hd tw parseDigits_digits)
qed

lemma parseInt_numeral:
  "parseInt (JString (digits n)) = Inr (Number_of_integer (int n))"
  "parseInt (JNumber (digits n)) = Inr (Number_of_integer (int n))"
  using parseInt_string_prefix [of "[]" n] by (simp_all add: parseInt_def)

text \<open>A \<open>Finite\<close> value of \<open>parseInt\<close> is an integer of the safe range.\<close>

lemma parseInt_Finite_safe: "parseInt v = Inr (Finite n) \<Longrightarrow> \<bar>n\<bar> < 2 ^ 53"
  by (auto simp add: parseInt_def parseInt_string_def Number_of_integer_def Let_def
      split: sum.splits if_splits)

text \<open>
  Numbers that are not written as a plain numeral: \<open>1e21\<close> is written \<open>1e+21\<close> and read
  as 1, \<open>0.5\<close> is read as 0, \<open>Infinity\<close> has no digit; a numeral beyond the safe range
  is read as a rounded Number; an object with a key \<open>toString\<close> cannot be converted.
\<close>

lemma parseInt_examples:
  "parseInt (JNumber (str ''1e+21'')) = Inr (Finite 1)"
  "parseInt (JNumber (str ''0.5'')) = Inr (Finite 0)"
  "parseInt (JNumber (str ''Infinity'')) = Inr NaN"
  "parseInt (JString (str '' -42abc'')) = Inr (Finite (- 42))"
  "parseInt (JString (str ''9007199254740993'')) = Inr (Rounded 9007199254740993)"
  "parseInt (JArray [JNumber (str ''12''), JNull, JNumber (str ''3'')]) = Inr (Finite 12)"
  "parseInt (JObject [(str ''a'', JNull)]) = Inr NaN"
  "parseInt (JObject [(str ''toString'', JNumber (str ''1''))]) = Inl TypeError"
  "parseInt (JArray [JObject [(str ''toString'', JNumber (str ''1''))]]) = Inl TypeError"
  by (simp_all add: parseInt_def parseInt_string_def Number_of_integer_def trimStart_def
      isWhiteSpace_def isDigit_def parseDigits_def digitValue_def str_def comma_def Let_def)






lemma digits_inj: "digits m = digits n \<Longrightarrow> m = n"
  by (metis parseDigits_digits)

section \<open>The record store and the handlers\<close>

text \<open>
  What the record store makes of the data it is handed, and the outcome of the one store
  call of \<open>POST\<close> and of \<open>PUT\<close> on it.
\<close>

lemma those_as_text: "those (map as_text (map JString xs)) = Some xs"
  by (induction xs) auto

lemma as_text_Some: "as_text v = Some t \<longleftrightarrow> v = JString t"
  by (cases v) auto

lemma as_text_list_actors_data:
  "as_text_list (actors_data (JString s)) = Some (map trim (split s comma))"
  using those_as_text [of "map trim (split s comma)"] by (simp add: comp_def)


lemma record_of_Some:
  "record_of i d = Some m \<longleftrightarrow>
     data_title d = JString (title m) \<and> as_text_list (data_actors d) = Some (actors m) \<and>
     data_year d = Finite (year m) \<and> movie_id m = i \<and> Movie.more m = ()"
  by (cases m; cases "data_year d")
     (auto simp add: record_of_def as_text_Some split: option.splits)



lemma those_as_text_array: "those (map as_text xs) = Some a \<Longrightarrow> map JString a = xs"
proof (induction xs arbitrary: a)
  case Nil
  then show ?case by simp
next
  case (Cons x xs)
  then show ?case
    by (auto simp add: as_text_Some split: option.splits)
qed

lemma as_text_list_array: "as_text_list (JArray xs) = Some a \<Longrightarrow> map JString a = xs"
  by (simp add: those_as_text_array)

lemma create_call_store:
  "create_call record_store d st =
     (if connected st
      then (case record_of (object_id (next_id st)) d of
              None \<Rightarrow> (Inr (NextResponse_json (ErrorJson (str ''Failed to add movie'')) 500), st)
            | Some m \<Rightarrow>
                (Inr (NextResponse_json (MovieJson m) 201),
                 st\<lparr>records := records st @ [m], next_id := Suc (next_id st)\<rparr>))
      else (Inr (NextResponse_json (ErrorJson (str ''Failed to add movie'')) 500), st))"
  by (simp add: create_call_def action_defs record_store_def store_create_def split: option.splits)

lemma update_call_store:
  "update_call record_store idv d st =
     (if connected st
      then (case as_text idv of
              None \<Rightarrow> (Inr (NextResponse_json (ErrorJson (str ''Failed to update movie'')) 500), st)
            | Some i \<Rightarrow>
               (case record_of i d of
                  None \<Rightarrow>
                    (Inr (NextResponse_json (ErrorJson (str ''Failed to update movie'')) 500), st)
                | Some m \<Rightarrow>
                    if i \<notin> set (map movie_id (records st))
                    then (Inr (NextResponse_json (ErrorJson (str ''Failed to update movie'')) 500), st)
                    else (Inr (NextResponse_json (MovieJson m) 200),
                          st\<lparr>records := map (\<lambda>x. if movie_id x = i then m else x) (records st)\<rparr>)))
      else (Inr (NextResponse_json (ErrorJson (str ''Failed to update movie'')) 500), st))"
  by (simp add: update_call_def action_defs record_store_def store_update_def split: option.splits)

lemma POST_not_object:
  assumes "json req = Inl err \<or> (\<exists>v. json req = Inr v \<and> (\<forall>kvs. v \<noteq> JObject kvs))"
  shows "snd (POST prisma req st) = st"
proof -
  from assms consider err where "json req = Inl err"
    | v where "json req = Inr v" "\<forall>kvs. v \<noteq> JObject kvs" by blast
  then show ?thesis
  proof cases
    case 1
    then show ?thesis by (simp add: POST_def action_defs)
  next
    case 2
    then show ?thesis by (cases v) (simp_all add: POST_def action_defs Let_def)
  qed
qed

lemma PUT_not_object:
  assumes "json req = Inl err \<or> (\<exists>v. json req = Inr v \<and> (\<forall>kvs. v \<noteq> JObject kvs))"
  shows "snd (PUT prisma req st) = st"
proof -
  from assms consider err where "json req = Inl err"
    | v where "json req = Inr v" "\<forall>kvs. v \<noteq> JObject kvs" by blast
  then show ?thesis
  proof cases
    case 1
    then show ?thesis by (simp add: PUT_def action_defs)
  next
    case 2
    then show ?thesis by (cases v) (simp_all add: PUT_def action_defs Let_def)
  qed
qed

lemma request_cases:
  obtains (unreadable) err where "json req = Inl err"
  | (other) v where "json req = Inr v" "\<forall>kvs. v \<noteq> JObject kvs"
  | (object) kvs where "json req = Inr (JObject kvs)"
  by (cases "json req") (metis, metis)

lemma record_of_written:
  assumes "record_of i
             \<lparr>data_title = property (JObject kvs) (str ''title''),
              data_actors = actors_data (property (JObject kvs) (str ''actors'')),
              data_year = parsed\<rparr> = Some m"
    and "parseInt (property (JObject kvs) (str ''year'')) = Inr parsed"
    and "truthy (property (JObject kvs) (str ''title''))"
    and "truthy (property (JObject kvs) (str ''actors''))"
    and "truthy (property (JObject kvs) (str ''year''))"
  shows "written kvs m"
proof -
  from assms(1,2) have t: "property (JObject kvs) (str ''title'') = JString (title m)"
    and a: "as_text_list (actors_data (property (JObject kvs) (str ''actors''))) = Some (actors m)"
    and y: "parseInt (property (JObject kvs) (str ''year'')) = Inr (Finite (year m))"
    by (simp_all add: record_of_Some)
  from y have y': "\<bar>year m\<bar> < 2 ^ 53" by (rule parseInt_Finite_safe)
  from t assms(3) have t': "title m \<noteq> []" by simp
  have "case property (JObject kvs) (str ''actors'') of
        JString s \<Rightarrow> actors m = map trim (split s comma) \<and> actors m \<noteq> []
      | v \<Rightarrow> v = JArray (map JString (actors m))"
  proof (cases "property (JObject kvs) (str ''actors'')")
    case (JString s)
    with a have "actors m = map trim (split s comma)"
      by (simp only: as_text_list_actors_data) simp
    with JString show ?thesis by (simp add: split_not_Nil)
  next
    case (JArray xs)
    with a show ?thesis by (simp add: those_as_text_array)
  qed (use a in simp_all)
  with t t' y y' assms(3-) show ?thesis by (simp add: written_def)
qed

section \<open>The year\<close>




section \<open>What is written\<close>

text \<open>
  C4, as stated, fails: with \<open>actors\<close> equal to the empty array the check passes and a
  record with no actor is written.
\<close>

theorem empty_actors_counterexample:
  "records (snd (POST record_store
      (Request (Inr (JObject
         (movie_body (JString (str ''Ronin'')) (JArray []) (JNumber (str ''1998''))))))
      heat_store))
   = [heat, \<lparr>movie_id = str ''1'', title = str ''Ronin'', actors = [], year = 1998\<rparr>] \<and>
   \<not> spec_persisted_ok
       \<lparr>movie_id = str ''1'', title = str ''Ronin'', actors = [], year = 1998\<rparr>"
  by (simp add: handler_defs eval_defs spec_persisted_ok_def)

text \<open>
  C4, amended. On the record store, \<open>GET\<close> and \<open>DELETE\<close> write no record, and \<open>POST\<close>
  and \<open>PUT\<close> write one only when \<open>title\<close>, \<open>actors\<close> and \<open>year\<close> of the body (and
  \<open>id\<close>, for \<open>PUT\<close>) are all truthy. The record written has the body's title, which is
  not empty, and the parsed year; its actors are the trimmed segments of the string, at
  least one, when \<open>actors\<close> was a string, and otherwise the array as it was supplied,
  which may be empty.
\<close>

theorem write_requires_fields:
  "(records (snd (POST record_store req st)) = records st \<or>
    (\<exists>kvs m. json req = Inr (JObject kvs) \<and> written kvs m \<and>
       records (snd (POST record_store req st)) = records st @ [m])) \<and>
   (records (snd (PUT record_store req st)) = records st \<or>
    (\<exists>kvs m. json req = Inr (JObject kvs) \<and> written kvs m \<and>
       truthy (property (JObject kvs) (str ''id'')) \<and>
       records (snd (PUT record_store req st))
         = map (\<lambda>x. if movie_id x = movie_id m then m else x) (records st))) \<and>
   records (snd (GET record_store st)) = records st \<and>
   set (records (snd (DELETE record_store req st))) \<subseteq> set (records st)"
proof -
  have post: "records (snd (POST record_store req st)) = records st \<or>
    (\<exists>kvs m. json req = Inr (JObject kvs) \<and> written kvs m \<and>
       records (snd (POST record_store req st)) = records st @ [m])"
  proof (cases req rule: request_cases)
    case (object kvs)
    let ?ok = "truthy (property (JObject kvs) (str ''title'')) \<and>
               truthy (property (JObject kvs) (str ''actors'')) \<and>
               truthy (property (JObject kvs) (str ''year''))"
    show ?thesis
    proof (cases "parseInt (property (JObject kvs) (str ''year''))")
      case (Inl err)
      then show ?thesis by (simp add: POST_object [OF object] del: property.simps)
    next
      case (Inr parsed)
      let ?d = "\<lparr>data_title = property (JObject kvs) (str ''title''),
                 data_actors = actors_data (property (JObject kvs) (str ''actors'')),
                 data_year = parsed\<rparr>"
      show ?thesis
      proof (cases "?ok \<and> connected st")
        case False
        with Inr show ?thesis
          by (auto simp add: POST_object [OF object] create_call_store simp del: property.simps)
      next
        case True
        with Inr have run: "POST record_store req st = create_call record_store ?d st"
          by (simp add: POST_object [OF object] del: property.simps)
        show ?thesis
        proof (cases "record_of (object_id (next_id st)) ?d")
          case None
          with True show ?thesis by (simp add: run create_call_store)
        next
          case (Some m)
          then have "written kvs m"
            using True Inr record_of_written [of "object_id (next_id st)" kvs parsed m] by simp
          moreover from True Some
          have "records (snd (POST record_store req st)) = records st @ [m]"
            by (simp add: run create_call_store)
          ultimately show ?thesis using object by blast
        qed
      qed
    qed
  qed (simp_all add: POST_not_object)
  have put: "records (snd (PUT record_store req st)) = records st \<or>
    (\<exists>kvs m. json req = Inr (JObject kvs) \<and> written kvs m \<and>
       truthy (property (JObject kvs) (str ''id'')) \<and>
       records (snd (PUT record_store req st))
         = map (\<lambda>x. if movie_id x = movie_id m then m else x) (records st))"
  proof (cases req rule: request_cases)
    case (object kvs)
    let ?ok = "truthy (property (JObject kvs) (str ''id'')) \<and>
               truthy (property (JObject kvs) (str ''title'')) \<and>
               truthy (property (JObject kvs) (str ''actors'')) \<and>
               truthy (property (JObject kvs) (str ''year''))"
    show ?thesis
    proof (cases "parseInt (property (JObject kvs) (str ''year''))")
      case (Inl err)
      then show ?thesis by (simp add: PUT_object [OF object] del: property.simps)
    next
      case (Inr parsed)
      let ?d = "\<lparr>data_title = property (JObject kvs) (str ''title''),
                 data_actors = actors_data (property (JObject kvs) (str ''actors'')),
                 data_year = parsed\<rparr>"
      show ?thesis
      proof (cases "?ok \<and> connected st")
        case False
        with Inr show ?thesis
          by (auto simp add: PUT_object [OF object] update_call_store simp del: property.simps)
      next
        case True
        with Inr have run: "PUT record_store req st
            = update_call record_store (property (JObject kvs) (str ''id'')) ?d st"
          by (simp add: PUT_object [OF object] del: property.simps)
        show ?thesis
        proof (cases "as_text (property (JObject kvs) (str ''id''))")
          case None
          with True show ?thesis by (simp add: run update_call_store)
        next
          case (Some i)
          show ?thesis
          proof (cases "record_of i ?d")
            case None
            with True Some show ?thesis by (simp add: run update_call_store)
          next
            case (Some m)
            then have w: "written kvs m" and i: "movie_id m = i"
              using True Inr record_of_written [of i kvs parsed m]
              by (simp_all add: record_of_Some)
            show ?thesis
            proof (cases "i \<in> set (map movie_id (records st))")
              case False
              with True Some \<open>as_text _ = Some i\<close> show ?thesis
                by (simp add: run update_call_store)
            next
              case in_store: True
              with True Some \<open>as_text _ = Some i\<close>
              have "records (snd (PUT record_store req st))
                  = map (\<lambda>x. if movie_id x = movie_id m then m else x) (records st)"
                by (simp add: run update_call_store i)
              with w True object show ?thesis by blast
            qed
          qed
        qed
      qed
    qed
  qed (simp_all add: PUT_not_object)
  have get: "records (snd (GET record_store st)) = records st"
    by (simp add: GET_def action_defs record_store_def store_findMany_def)
  have del: "set (records (snd (DELETE record_store req st))) \<subseteq> set (records st)"
    by (cases "json req")
       (auto simp add: DELETE_def action_defs record_store_def store_delete_def Let_def
          split: option.splits)
  from post put get del show ?thesis by blast
qed

theorem write_requires_fields_witness:
  "written (movie_body (JString (str ''Ronin'')) (JString (str ''Al, Bob'')) (JNumber (str ''1998'')))
     \<lparr>movie_id = str ''1'', title = str ''Ronin'', actors = [str ''Al'', str ''Bob''],
      year = 1998\<rparr> \<and>
   records (snd (POST record_store
      (Request (Inr (JObject
         (movie_body (JString (str ''Ronin'')) (JString (str ''Al, Bob'')) (JNumber (str ''1998''))))))
      heat_store))
   = records heat_store
     @ [\<lparr>movie_id = str ''1'', title = str ''Ronin'', actors = [str ''Al'', str ''Bob''],
         year = 1998\<rparr>] \<and>
   records (snd (PUT record_store
      (Request (Inr (JObject
         (movie_body (JString (str ''Ronin'')) (JString (str ''Al, Bob'')) (JNumber (str ''1998''))))))
      heat_store))
   = records heat_store"
  using write_requires_fields
    [of "Request (Inr (JObject
           (movie_body (JString (str ''Ronin'')) (JString (str ''Al, Bob'')) (JNumber (str ''1998'')))))"
        heat_store]
  by (simp add: handler_defs eval_defs written_def)

section \<open>Updating a record that is not there\<close>

lemma update_call_throws:
  "movie_update prisma i d st = (Inl err, st') \<Longrightarrow>
   update_call prisma i d st
     = (Inr (NextResponse_json (ErrorJson (str ''Failed to update movie'')) 500), st')"
  by (simp add: update_call_def action_defs)

lemma store_update_NotFound:
  "connected st \<Longrightarrow> record_of i d = Some m \<Longrightarrow> i \<notin> set (map movie_id (records st)) \<Longrightarrow>
   store_update (JString i) d st = (Inl NotFound, st)"
  by (simp add: store_update_def)

text \<open>
  C5. A \<open>PUT\<close> whose \<open>id\<close> is the identifier of no stored record never answers 200 on
  the record store: the answer is 400 or 500 and the store is unchanged. When the four
  fields pass the check, the store call fails (with NotFound, when the store is reachable
  and accepts the data), the handler catches the failure, and the answer is the same 500,
  "Failed to update movie", as for any other store failure.
\<close>

theorem update_unknown_id:
  assumes "json req = Inr (JObject kvs)"
    and "\<forall>m \<in> set (records st). JString (movie_id m) \<noteq> property (JObject kvs) (str ''id'')"
  shows "(\<exists>r. fst (PUT record_store req st) = Inr r \<and> (status r = 400 \<or> status r = 500)) \<and>
         snd (PUT record_store req st) = st \<and>
         (truthy (property (JObject kvs) (str ''id''))
            \<and> truthy (property (JObject kvs) (str ''title''))
            \<and> truthy (property (JObject kvs) (str ''actors''))
            \<and> truthy (property (JObject kvs) (str ''year''))
          \<longrightarrow> PUT record_store req st
                = (Inr (NextResponse_json (ErrorJson (str ''Failed to update movie'')) 500), st)) \<and>
         (\<forall>i d m. connected st \<and> property (JObject kvs) (str ''id'') = JString i
                  \<and> record_of i d = Some m
            \<longrightarrow> movie_update record_store (JString i) d st = (Inl NotFound, st))"
proof -
  let ?i = "property (JObject kvs) (str ''id'')"
  have call: "update_call record_store ?i d st
      = (Inr (NextResponse_json (ErrorJson (str ''Failed to update movie'')) 500), st)" for d
  proof (cases "as_text ?i")
    case None
    then show ?thesis by (simp add: update_call_store)
  next
    case (Some i)
    then have "?i = JString i" by (simp add: as_text_Some)
    with assms(2) have "i \<notin> set (map movie_id (records st))" by auto
    with Some show ?thesis by (simp add: update_call_store split: option.splits)
  qed
  have nf: "movie_update record_store (JString i) d st = (Inl NotFound, st)"
    if "connected st" "?i = JString i" "record_of i d = Some m" for i d m
  proof -
    from that(2) assms(2) have "i \<notin> set (map movie_id (records st))" by auto
    with that(1,3) show ?thesis
      by (simp add: record_store_def store_update_NotFound)
  qed
  have "(\<exists>r. fst (PUT record_store req st) = Inr r \<and> (status r = 400 \<or> status r = 500)) \<and>
        snd (PUT record_store req st) = st \<and>
        (truthy ?i \<and> truthy (property (JObject kvs) (str ''title''))
           \<and> truthy (property (JObject kvs) (str ''actors''))
           \<and> truthy (property (JObject kvs) (str ''year''))
         \<longrightarrow> PUT record_store req st
               = (Inr (NextResponse_json (ErrorJson (str ''Failed to update movie'')) 500), st))"
    by (simp add: PUT_object [OF assms(1)] call missing_required_fields_def NextResponse_json_def
        del: property.simps split: sum.splits)
  with nf show ?thesis by blast
qed

theorem update_unknown_id_witness:
  "PUT record_store
     (Request (Inr (JObject
        ((str ''id'', JString (str ''7''))
         # movie_body (JString (str ''Ronin'')) (JString (str ''Al'')) (JNumber (str ''1998''))))))
     heat_store
   = (Inr \<lparr>status = 500, body = ErrorJson (str ''Failed to update movie'')\<rparr>, heat_store) \<and>
   store_update (JString (str ''7''))
     \<lparr>data_title = JString (str ''Ronin''), data_actors = JArray [JString (str ''Al'')],
      data_year = Finite 1998\<rparr> heat_store
   = (Inl NotFound, heat_store)"
  using update_unknown_id
    [of "Request (Inr (JObject
           ((str ''id'', JString (str ''7''))
            # movie_body (JString (str ''Ronin'')) (JString (str ''Al'')) (JNumber (str ''1998'')))))"
        "(str ''id'', JString (str ''7''))
            # movie_body (JString (str ''Ronin'')) (JString (str ''Al'')) (JNumber (str ''1998''))"
        heat_store]
  by (simp add: eval_defs)

section \<open>Deleting, then listing\<close>

lemma find_by_id:
  "find (\<lambda>x. movie_id x = i) ms = None \<longleftrightarrow> i \<notin> set (map movie_id ms)"
  by (auto simp add: find_None_iff)

lemma store_delete_cases:
  "store_delete idv st =
     (case as_text idv of
        Some i \<Rightarrow>
          if connected st \<and> i \<in> set (map movie_id (records st))
          then (Inr (the (find (\<lambda>x. movie_id x = i) (records st))),
                st\<lparr>records := filter (\<lambda>x. movie_id x \<noteq> i) (records st)\<rparr>)
          else (Inl (if connected st then NotFound else PersistenceError), st)
      | None \<Rightarrow> (Inl PersistenceError, st))"
proof (cases "as_text idv")
  case None
  then show ?thesis by (simp add: store_delete_def)
next
  case (Some i)
  show ?thesis
  proof (cases "find (\<lambda>x. movie_id x = i) (records st)")
    case None
    with Some show ?thesis
      using find_by_id [of i "records st"] by (simp add: store_delete_def)
  next
    case found: (Some m)
    then have "i \<in> set (map movie_id (records st))"
      using find_by_id [of i "records st"] by simp
    with Some found show ?thesis by (simp add: store_delete_def)
  qed
qed

lemma DELETE_object:
  assumes "json req = Inr (JObject kvs)"
  shows "DELETE record_store req st =
     (if \<not> truthy (property (JObject kvs) (str ''id''))
      then (Inr (NextResponse_json (ErrorJson (str ''Missing movie ID'')) 400), st)
      else case as_text (property (JObject kvs) (str ''id'')) of
             Some i \<Rightarrow>
               if connected st \<and> i \<in> set (map movie_id (records st))
               then (Inr (NextResponse_json (MessageJson (str ''Movie deleted successfully'')) 200),
                     st\<lparr>records := filter (\<lambda>x. movie_id x \<noteq> i) (records st)\<rparr>)
               else (Inr (NextResponse_json (ErrorJson (str ''Failed to delete movie'')) 500), st)
           | None \<Rightarrow> (Inr (NextResponse_json (ErrorJson (str ''Failed to delete movie'')) 500), st))"
  using assms
  by (simp add: DELETE_def action_defs record_store_def store_delete_cases Let_def
      split: option.splits)

lemma GET_store:
  "GET record_store st =
     (if connected st then (Inr (NextResponse_json (MoviesJson (records st)) 200), st)
      else (Inr (NextResponse_json (ErrorJson (str ''Failed to fetch movies'')) 500), st))"
  by (simp add: GET_def action_defs record_store_def store_findMany_def)

text \<open>
  C7. After a \<open>DELETE\<close> that the record store answered with 200, \<open>GET\<close> answers 200
  with a sequence in which no record has the identifier of the request.
\<close>

theorem delete_then_list:
  assumes "json req = Inr (JObject kvs)"
    and "fst (DELETE record_store req st) = Inr r"
    and "status r = 200"
  shows "\<exists>movies.
           fst (GET record_store (snd (DELETE record_store req st)))
             = Inr (NextResponse_json (MoviesJson movies) 200) \<and>
           (\<forall>m \<in> set movies. JString (movie_id m) \<noteq> property (JObject kvs) (str ''id''))"
proof (cases "as_text (property (JObject kvs) (str ''id''))")
  case None
  with assms(2,3) show ?thesis
    by (auto simp add: DELETE_object [OF assms(1)] NextResponse_json_def split: if_splits)
next
  case (Some i)
  then have i: "property (JObject kvs) (str ''id'') = JString i"
    by (simp add: as_text_Some)
  from assms(2,3) Some have ok: "connected st" "i \<in> set (map movie_id (records st))"
    by (auto simp add: DELETE_object [OF assms(1)] NextResponse_json_def split: if_splits)
  then have "snd (DELETE record_store req st)
      = st\<lparr>records := filter (\<lambda>x. movie_id x \<noteq> i) (records st)\<rparr>"
    using Some assms(2,3)
    by (auto simp add: DELETE_object [OF assms(1)] NextResponse_json_def split: if_splits)
  with ok have "fst (GET record_store (snd (DELETE record_store req st)))
      = Inr (NextResponse_json (MoviesJson (filter (\<lambda>x. movie_id x \<noteq> i) (records st))) 200)"
    by (simp add: GET_store)
  moreover have "\<forall>m \<in> set (filter (\<lambda>x. movie_id x \<noteq> i) (records st)).
      JString (movie_id m) \<noteq> property (JObject kvs) (str ''id'')"
    unfolding i by simp
  ultimately show ?thesis by blast
qed

theorem delete_then_list_witness:
  "fst (DELETE record_store (Request (Inr (JObject [(str ''id'', JString (str ''0''))]))) heat_store)
     = Inr \<lparr>status = 200, body = MessageJson (str ''Movie deleted successfully'')\<rparr> \<and>
   fst (GET record_store
     (snd (DELETE record_store (Request (Inr (JObject [(str ''id'', JString (str ''0''))])))
        heat_store)))
     = Inr \<lparr>status = 200, body = MoviesJson []\<rparr>"
  using delete_then_list
    [of "Request (Inr (JObject [(str ''id'', JString (str ''0''))]))"
        "[(str ''id'', JString (str ''0''))]" heat_store
        "\<lparr>status = 200, body = MessageJson (str ''Movie deleted successfully'')\<rparr>"]
  by (simp add: handler_defs eval_defs)

section \<open>Creating, then listing\<close>

text \<open>
  The counter makes the identifiers of the record store fresh: the invariant holds of the
  empty store and each write keeps it.
\<close>

lemma object_id_inj: "object_id m = object_id n \<Longrightarrow> m = n"
  by (simp add: object_id_def digits_inj)

lemma object_id_fresh:
  assumes "store_inv st"
  shows "object_id (next_id st) \<notin> set (map movie_id (records st))"
proof
  assume "object_id (next_id st) \<in> set (map movie_id (records st))"
  then obtain m where m: "m \<in> set (records st)" "movie_id m = object_id (next_id st)"
    by auto
  from assms m(1) have "movie_id m \<in> set (map object_id [0..<next_id st])"
    by (simp add: store_inv_def list_all_iff)
  then obtain k where "k < next_id st" "movie_id m = object_id k" by auto
  with m(2) show False using object_id_inj [of k "next_id st"] by simp
qed

lemma store_inv_empty: "store_inv empty_store"
  by (simp add: store_inv_def empty_store_def)

lemma store_inv_create:
  assumes "store_inv st" and "movie_id m = object_id (next_id st)"
  shows "store_inv (st\<lparr>records := records st @ [m], next_id := Suc (next_id st)\<rparr>)"
  using assms object_id_fresh [OF assms(1)]
  by (auto simp add: store_inv_def list_all_iff)

lemma store_inv_ids:
  "store_inv st \<longleftrightarrow>
     distinct (map movie_id (records st)) \<and>
     set (map movie_id (records st)) \<subseteq> set (map object_id [0..<next_id st])"
  by (auto simp add: store_inv_def list_all_iff)

lemma store_inv_update:
  assumes "store_inv st" and "movie_id m = i"
  shows "store_inv (st\<lparr>records := map (\<lambda>x. if movie_id x = i then m else x) (records st)\<rparr>)"
proof -
  have "map movie_id (map (\<lambda>x. if movie_id x = i then m else x) rs) = map movie_id rs" for rs
    using assms(2) by (induction rs) auto
  with assms(1) show ?thesis
    by (simp add: store_inv_ids del: map_map)
qed

lemma store_inv_delete:
  assumes "store_inv st"
  shows "store_inv (st\<lparr>records := filter (\<lambda>x. movie_id x \<noteq> i) (records st)\<rparr>)"
  using assms by (auto simp add: store_inv_def list_all_iff distinct_map_filter)

text \<open>
  C6, as stated, fails: the record created is not the only one whose content matches the
  input when an equal record is already stored. Creating the stored movie once more gives a
  list with two records of this content.
\<close>

theorem duplicate_content_counterexample:
  "fst (GET record_store
     (snd (POST record_store
        (Request (Inr (JObject
           (movie_body (JString (str ''Heat'')) (JString (str ''Al, Bob'')) (JNumber (str ''1995''))))))
        heat_store)))
   = Inr \<lparr>status = 200,
          body = MoviesJson
            [\<lparr>movie_id = str ''0'', title = str ''Heat'', actors = [str ''Al'', str ''Bob''],
              year = 1995\<rparr>,
             \<lparr>movie_id = str ''1'', title = str ''Heat'', actors = [str ''Al'', str ''Bob''],
              year = 1995\<rparr>]\<rparr> \<and>
   length (filter (same_content (str ''Heat'') [str ''Al'', str ''Bob''] 1995)
     [\<lparr>movie_id = str ''0'', title = str ''Heat'', actors = [str ''Al'', str ''Bob''],
       year = 1995\<rparr>,
      \<lparr>movie_id = str ''1'', title = str ''Heat'', actors = [str ''Al'', str ''Bob''],
       year = 1995\<rparr>]) = 2"
  by (simp add: handler_defs eval_defs same_content_def)

text \<open>
  C6, amended. For a valid input (a non-empty text title; actors a non-empty string or
  an array of strings; a truthy year that \<open>parseInt\<close> reads as an integer that a Number
  holds exactly) on a reachable record store
  in a state of the invariant, \<open>POST\<close> answers 201 with a record of the normalised content
  and of a non-empty identifier that no stored record had; \<open>GET\<close> then answers 200 with
  the former records followed by this one, which is the only record of its identifier;
  the records of this content are one more than before.
\<close>

theorem create_then_list:
  assumes "json req = Inr (JObject kvs)"
    and "property (JObject kvs) (str ''title'') = JString t" and "t \<noteq> []"
    and "truthy (property (JObject kvs) (str ''actors''))"
    and "as_text_list (actors_data (property (JObject kvs) (str ''actors''))) = Some names"
    and "truthy (property (JObject kvs) (str ''year''))"
    and "parseInt (property (JObject kvs) (str ''year'')) = Inr (Finite n)"
    and "connected st" and "store_inv st"
  shows "\<exists>m. fst (POST record_store req st) = Inr (NextResponse_json (MovieJson m) 201) \<and>
             same_content t names n m \<and>
             movie_id m \<noteq> [] \<and> movie_id m \<notin> set (map movie_id (records st)) \<and>
             fst (GET record_store (snd (POST record_store req st)))
               = Inr (NextResponse_json (MoviesJson (records st @ [m])) 200) \<and>
             filter (\<lambda>x. movie_id x = movie_id m) (records st @ [m]) = [m] \<and>
             length (filter (same_content t names n) (records st @ [m]))
               = Suc (length (filter (same_content t names n) (records st))) \<and>
             store_inv (snd (POST record_store req st))"
proof -
  let ?d = "\<lparr>data_title = property (JObject kvs) (str ''title''),
             data_actors = actors_data (property (JObject kvs) (str ''actors'')),
             data_year = Finite n\<rparr>"
  let ?m = "\<lparr>movie_id = object_id (next_id st), title = t, actors = names, year = n\<rparr>"
  let ?st = "st\<lparr>records := records st @ [?m], next_id := Suc (next_id st)\<rparr>"
  have rec: "record_of (object_id (next_id st)) ?d = Some ?m"
    using assms(2,5) by (simp add: record_of_def)
  have run: "POST record_store req st = (Inr (NextResponse_json (MovieJson ?m) 201), ?st)"
    using assms(2,3,4,6,7,8) rec
    by (simp add: POST_object [OF assms(1)] create_call_store del: property.simps)
  have fresh: "movie_id ?m \<notin> set (map movie_id (records st))"
    using object_id_fresh [OF assms(9)] by simp
  have "movie_id x \<noteq> object_id (next_id st)" if "x \<in> set (records st)" for x
  proof
    assume e: "movie_id x = object_id (next_id st)"
    from that have "movie_id x \<in> set (map movie_id (records st))" by simp
    with e fresh show False by simp
  qed
  then have one: "filter (\<lambda>x. movie_id x = movie_id ?m) (records st @ [?m]) = [?m]"
    by (simp add: filter_empty_conv)
  have "movie_id ?m \<noteq> []" by (simp add: object_id_def digits_not_Nil)
  moreover have "same_content t names n ?m" by (simp add: same_content_def)
  moreover have "fst (GET record_store ?st)
      = Inr (NextResponse_json (MoviesJson (records st @ [?m])) 200)"
    using assms(8) by (simp add: GET_store)
  moreover have "length (filter (same_content t names n) (records st @ [?m]))
      = Suc (length (filter (same_content t names n) (records st)))"
    by (simp add: same_content_def)
  moreover have "store_inv ?st"
    using store_inv_create [OF assms(9), of ?m] by simp
  ultimately show ?thesis using run fresh one by (intro exI [of _ ?m]) simp
qed

theorem create_then_list_witness:
  "store_inv heat_store \<and> connected heat_store \<and>
   fst (POST record_store
     (Request (Inr (JObject
        (movie_body (JString (str ''Inception'')) (JString (str ''Leo, Tom''))
           (JString (str ''2010''))))))
     heat_store)
   = Inr \<lparr>status = 201,
          body = MovieJson \<lparr>movie_id = str ''1'', title = str ''Inception'',
                            actors = [str ''Leo'', str ''Tom''], year = 2010\<rparr>\<rparr> \<and>
   fst (GET record_store (snd (POST record_store
     (Request (Inr (JObject
        (movie_body (JString (str ''Inception'')) (JString (str ''Leo, Tom''))
           (JString (str ''2010''))))))
     heat_store)))
   = Inr \<lparr>status = 200,
          body = MoviesJson
            [heat, \<lparr>movie_id = str ''1'', title = str ''Inception'',
                    actors = [str ''Leo'', str ''Tom''], year = 2010\<rparr>]\<rparr>"
proof -
  have inv: "store_inv heat_store"
    by (simp add: store_inv_def heat_store_def heat_def object_id_def digits.simps str_def
        upt_rec)
  have names: "as_text_list (actors_data (JString (str ''Leo, Tom'')))
      = Some [str ''Leo'', str ''Tom'']"
    by (simp add: eval_defs)
  have year: "parseInt (JString (str ''2010'')) = Inr (Finite 2010)"
    by (simp add: eval_defs)
  show ?thesis
    using inv names year
      create_then_list
        [of "Request (Inr (JObject
               (movie_body (JString (str ''Inception'')) (JString (str ''Leo, Tom''))
                  (JString (str ''2010'')))))"
            "movie_body (JString (str ''Inception'')) (JString (str ''Leo, Tom''))
               (JString (str ''2010''))"
            "str ''Inception''" "[str ''Leo'', str ''Tom'']" 2010 heat_store]
    by (simp add: handler_defs eval_defs)
qed

text \<open>Every handler keeps the invariant of the record store.\<close>

lemma DELETE_not_object:
  assumes "json req = Inl err \<or> (\<exists>v. json req = Inr v \<and> (\<forall>kvs. v \<noteq> JObject kvs))"
  shows "snd (DELETE prisma req st) = st"
proof -
  from assms consider err where "json req = Inl err"
    | v where "json req = Inr v" "\<forall>kvs. v \<noteq> JObject kvs" by blast
  then show ?thesis
  proof cases
    case 1
    then show ?thesis by (simp add: DELETE_def action_defs)
  next
    case 2
    then show ?thesis by (cases v) (simp_all add: DELETE_def action_defs Let_def)
  qed
qed

lemma store_inv_handlers:
  assumes "store_inv st"
  shows "store_inv (snd (GET record_store st))"
    and "store_inv (snd (POST record_store req st))"
    and "store_inv (snd (PUT record_store req st))"
    and "store_inv (snd (DELETE record_store req st))"
proof -
  show "store_inv (snd (GET record_store st))"
    using assms by (simp add: GET_store)
  show "store_inv (snd (POST record_store req st))"
  proof (cases req rule: request_cases)
    case (object kvs)
    have "store_inv (st\<lparr>records := records st @ [m], next_id := Suc (next_id st)\<rparr>)"
      if "record_of (object_id (next_id st)) d = Some m" for d m
      using that store_inv_create [OF assms, of m] by (simp add: record_of_Some)
    with assms show ?thesis
      by (simp add: POST_object [OF object] create_call_store split: option.splits sum.splits)
  qed (simp_all add: POST_not_object assms)
  show "store_inv (snd (PUT record_store req st))"
  proof (cases req rule: request_cases)
    case (object kvs)
    have "store_inv (st\<lparr>records := map (\<lambda>x. if movie_id x = i then m else x) (records st)\<rparr>)"
      if "record_of i d = Some m" for i d m
      using that store_inv_update [OF assms, of m i] by (simp add: record_of_Some)
    with assms show ?thesis
      by (simp add: PUT_object [OF object] update_call_store split: option.splits sum.splits)
  qed (simp_all add: PUT_not_object assms)
  show "store_inv (snd (DELETE record_store req st))"
  proof (cases req rule: request_cases)
    case (object kvs)
    with assms show ?thesis
      by (simp add: DELETE_object [OF object] store_inv_delete split: option.splits)
  qed (simp_all add: DELETE_not_object assms)
qed

section \<open>The page's list\<close>



end
